theory Spec2Isabelle
  imports Main "HOL-Library.AList"
begin

section \<open>The worker and its surroundings\<close>

text \<open>
  A shallow embedding of \<^verbatim>\<open>src/tts_server.py\<close>: the class \<^verbatim>\<open>IndexTtsServer\<close> with its
  methods \<^verbatim>\<open>__init__\<close>, \<^verbatim>\<open>warm_up_models\<close>, \<^verbatim>\<open>process_text\<close> and \<^verbatim>\<open>run\<close>, and \<^verbatim>\<open>main\<close>.

  The program talks to three things it does not own: the file system (\<^verbatim>\<open>os\<close>, \<^verbatim>\<open>tempfile\<close>),
  the broker socket (\<^verbatim>\<open>zmq\<close>) and the speech model (\<^verbatim>\<open>self.tts.infer_fast\<close>). The file
  system is a finite table from paths to nodes; the socket is the list of envelopes sent so
  far; what the surroundings decide on their own (what the next receive yields, which names
  the temporary-name generator proposes, what the model does when called) is an explicit
  argument. Every \<^verbatim>\<open>raise\<close> is a value \<open>Inl\<close> that carries the exception together with the
  world as it was when the exception left the block.
\<close>

type_synonym bytes = string
type_synonym path = string
type_synonym frames = "bytes list"

datatype node = File bytes | Dir

type_synonym filesystem = "(path \<times> node) list"

text \<open>The exceptions below are all subclasses of Python's \<^verbatim>\<open>Exception\<close>.\<close>

datatype exn =
    IndexError
  | UnicodeDecodeError
  | UnboundLocalError
  | FileNotFoundError string
  | FileExistsError string
  | IsADirectoryError string
  | NotADirectoryError string
  | OSError string
  | ZMQError string
  | ModelError string

text \<open>
  \<^verbatim>\<open>str(e)\<close>: the text an exception is printed with. The exceptions of the operating
  system and of the collaborators carry their message.
\<close>

fun str_exn :: "exn \<Rightarrow> string" where
  "str_exn IndexError = ''list index out of range''"
| "str_exn UnicodeDecodeError = ''utf-8 codec cannot decode byte''"
| "str_exn UnboundLocalError = ''cannot access local variable message''"
| "str_exn (FileNotFoundError s) = s"
| "str_exn (FileExistsError s) = s"
| "str_exn (IsADirectoryError s) = s"
| "str_exn (NotADirectoryError s) = s"
| "str_exn (OSError s) = s"
| "str_exn (ZMQError s) = s"
| "str_exn (ModelError s) = s"

text \<open>
  The lines the program prints. A message printed by two consecutive \<^verbatim>\<open>print\<close> calls is
  one entry; the start-up lines that only report the device and the paths in use are left
  out, as are the wall-clock figures.
\<close>

datatype log_entry =
    LogLoadingModel
  | LogRequiredFileMissing path
  | LogRequiredFileFound path
  | LogModelLoaded
  | LogModelLoadFailed exn
  | LogDefaultVoiceFound path
  | LogDefaultVoiceMissing path
  | LogWarmingUp
  | LogWarmedUp
  | LogSkippingWarmup
  | LogReceivedText string
  | LogSavingTo path
  | LogUsingVoice path
  | LogUsingDefaultVoice path
  | LogInferenceCompleted
  | LogAudioNotCreated
  | LogAudioCreated nat
  | LogProcessingException exn
  | LogReady
  | LogStatus string
  | LogCleanupWarning exn
  | LogErrorProcessingRequest exn

text \<open>
  The world: the file system, the envelopes handed to \<^verbatim>\<open>send_multipart\<close> (oldest first),
  the lines printed, and the calls made to \<^verbatim>\<open>infer_fast\<close> as triples
  (\<^verbatim>\<open>audio_prompt\<close>, \<^verbatim>\<open>text\<close>, \<^verbatim>\<open>output_path\<close>).
\<close>

record world =
  fs :: filesystem
  sent :: "frames list"
  printed :: "log_entry list"
  calls :: "(path \<times> string \<times> path) list"

definition print :: "log_entry \<Rightarrow> world \<Rightarrow> world" where
  "print l w = w\<lparr>printed := printed w @ [l]\<rparr>"

text \<open>
  \<^verbatim>\<open>socket.send_multipart\<close> on the connected DEALER socket queues the envelope; it is taken
  not to raise.
\<close>

definition send_multipart :: "frames \<Rightarrow> world \<Rightarrow> world" where
  "send_multipart m w = w\<lparr>sent := sent w @ [m]\<rparr>"

subsection \<open>Paths and files (\<^verbatim>\<open>os\<close>, \<^verbatim>\<open>os.path\<close>, \<^verbatim>\<open>tempfile\<close>)\<close>

definition path_exists :: "filesystem \<Rightarrow> path \<Rightarrow> bool" where
  "path_exists t p = (map_of t p \<noteq> None)"

text \<open>\<^verbatim>\<open>os.path.join(a, b)\<close> of \<^verbatim>\<open>posixpath\<close>.\<close>

definition path_join :: "path \<Rightarrow> path \<Rightarrow> path" where
  "path_join a b =
     (if take 1 b = ''/'' then b
      else if a = [] \<or> last a = CHR ''/'' then a @ b
      else a @ ''/'' @ b)"

text \<open>
  \<^verbatim>\<open>os.path.dirname(p)\<close> of \<^verbatim>\<open>posixpath\<close>: the part up to the last slash, with trailing
  slashes stripped unless it consists of slashes only.
\<close>

definition dirname :: "path \<Rightarrow> path" where
  "dirname p =
     (let head = rev (dropWhile (\<lambda>c. c \<noteq> CHR ''/'') (rev p))
      in if head \<noteq> [] \<and> \<not> list_all (\<lambda>c. c = CHR ''/'') head
         then rev (dropWhile (\<lambda>c. c = CHR ''/'') (rev head))
         else head)"

text \<open>
  \<^verbatim>\<open>tempfile.mkdtemp()\<close>: the generator proposes names; the first one that does not exist
  yet becomes a new directory; when every proposal exists, \<^verbatim>\<open>FileExistsError\<close>.
\<close>

definition mkdtemp :: "filesystem \<Rightarrow> path list \<Rightarrow> exn + (path \<times> filesystem)" where
  "mkdtemp t names =
     (case filter (\<lambda>d. \<not> path_exists t d) names of
        [] \<Rightarrow> Inl (FileExistsError ''No usable temporary directory name found'')
      | d # _ \<Rightarrow> Inr (d, AList.update d Dir t))"

text \<open>
  \<^verbatim>\<open>tempfile.NamedTemporaryFile(suffix='.wav', delete=True)\<close> on entry: the same search, and
  the name found becomes a new empty file.
\<close>

definition NamedTemporaryFile :: "filesystem \<Rightarrow> path list \<Rightarrow> exn + (path \<times> filesystem)" where
  "NamedTemporaryFile t names =
     (case filter (\<lambda>f. \<not> path_exists t f) names of
        [] \<Rightarrow> Inl (FileExistsError ''No usable temporary file name found'')
      | f # _ \<Rightarrow> Inr (f, AList.update f (File []) t))"

text \<open>\<^verbatim>\<open>os.remove(p)\<close>.\<close>

definition os_remove :: "filesystem \<Rightarrow> path \<Rightarrow> exn + filesystem" where
  "os_remove t p =
     (case map_of t p of
        None \<Rightarrow> Inl (FileNotFoundError (''[Errno 2] No such file or directory: '' @ p))
      | Some Dir \<Rightarrow> Inl (IsADirectoryError (''[Errno 21] Is a directory: '' @ p))
      | Some (File _) \<Rightarrow> Inr (AList.delete p t))"

text \<open>\<^verbatim>\<open>os.rmdir(d)\<close>: only an existing, empty directory is removed.\<close>

definition os_rmdir :: "filesystem \<Rightarrow> path \<Rightarrow> exn + filesystem" where
  "os_rmdir t d =
     (case map_of t d of
        None \<Rightarrow> Inl (FileNotFoundError (''[Errno 2] No such file or directory: '' @ d))
      | Some (File _) \<Rightarrow> Inl (NotADirectoryError (''[Errno 20] Not a directory: '' @ d))
      | Some Dir \<Rightarrow>
          if list_ex (\<lambda>(p, _). p \<noteq> d \<and> dirname p = d) t
          then Inl (OSError (''[Errno 39] Directory not empty: '' @ d))
          else Inr (AList.delete d t))"

text \<open>\<^verbatim>\<open>open(p, 'rb').read()\<close>.\<close>

definition read_file :: "filesystem \<Rightarrow> path \<Rightarrow> exn + bytes" where
  "read_file t p =
     (case map_of t p of
        None \<Rightarrow> Inl (FileNotFoundError (''[Errno 2] No such file or directory: '' @ p))
      | Some Dir \<Rightarrow> Inl (IsADirectoryError (''[Errno 21] Is a directory: '' @ p))
      | Some (File b) \<Rightarrow> Inr b)"

text \<open>\<^verbatim>\<open>os.path.getsize(p)\<close>, used for a printed line only.\<close>

definition getsize :: "filesystem \<Rightarrow> path \<Rightarrow> nat" where
  "getsize t p = (case map_of t p of Some (File b) \<Rightarrow> length b | _ \<Rightarrow> 0)"

text \<open>
  \<^verbatim>\<open>os.makedirs(d, exist_ok=True)\<close>: \<open>d\<close> and every missing ancestor (a prefix of \<open>d\<close>
  that ends before a slash) become directories; a file in the way raises; the empty path
  raises \<^verbatim>\<open>FileNotFoundError\<close>.
\<close>

definition ancestors :: "path \<Rightarrow> path list" where
  "ancestors d = map (\<lambda>i. take i d) (filter (\<lambda>i. d ! i = CHR ''/'') [1..<length d]) @ [d]"

fun mkdirs :: "filesystem \<Rightarrow> path list \<Rightarrow> (exn \<times> filesystem) + filesystem" where
  "mkdirs t [] = Inr t"
| "mkdirs t (p # ps) =
     (case map_of t p of
        None \<Rightarrow> mkdirs (AList.update p Dir t) ps
      | Some Dir \<Rightarrow> mkdirs t ps
      | Some (File _) \<Rightarrow>
          Inl (if ps = [] then FileExistsError (''[Errno 17] File exists: '' @ p)
               else NotADirectoryError (''[Errno 20] Not a directory: '' @ p), t))"

definition makedirs :: "filesystem \<Rightarrow> path \<Rightarrow> (exn \<times> filesystem) + filesystem" where
  "makedirs t d =
     (if d = [] then Inl (FileNotFoundError ''[Errno 2] No such file or directory: '', t)
      else mkdirs t (ancestors d))"

subsection \<open>Decoding the payload\<close>

text \<open>
  \<^verbatim>\<open>payload.decode('utf-8')\<close> raises on a byte sequence that is not well-formed UTF-8
  (a stray continuation byte, a truncated or overlong sequence, a surrogate, a code point
  above U+10FFFF). A text is kept as its UTF-8 bytes.
\<close>

definition continuation :: "nat \<Rightarrow> bool" where
  "continuation b = (128 \<le> b \<and> b \<le> 191)"

fun utf8_valid :: "nat list \<Rightarrow> bool" where
  "utf8_valid [] = True"
| "utf8_valid (b # bs) =
     (if b < 128 then utf8_valid bs
      else if 194 \<le> b \<and> b \<le> 223 then
        (case bs of
           c1 # r \<Rightarrow> continuation c1 \<and> utf8_valid r
         | _ \<Rightarrow> False)
      else if 224 \<le> b \<and> b \<le> 239 then
        (case bs of
           c1 # c2 # r \<Rightarrow>
             (if b = 224 then 160 \<le> c1 \<and> c1 \<le> 191
              else if b = 237 then 128 \<le> c1 \<and> c1 \<le> 159
              else continuation c1)
             \<and> continuation c2 \<and> utf8_valid r
         | _ \<Rightarrow> False)
      else if 240 \<le> b \<and> b \<le> 244 then
        (case bs of
           c1 # c2 # c3 # r \<Rightarrow>
             (if b = 240 then 144 \<le> c1 \<and> c1 \<le> 191
              else if b = 244 then 128 \<le> c1 \<and> c1 \<le> 143
              else continuation c1)
             \<and> continuation c2 \<and> continuation c3 \<and> utf8_valid r
         | _ \<Rightarrow> False)
      else False)"

definition decode_utf8 :: "bytes \<Rightarrow> exn + string" where
  "decode_utf8 payload =
     (if utf8_valid (map of_char payload) then Inr payload else Inl UnicodeDecodeError)"

subsection \<open>The speech model\<close>

text \<open>
  What one call of \<^verbatim>\<open>self.tts.infer_fast\<close> (inside the two \<^verbatim>\<open>torch\<close> context managers)
  does: it may write bytes to its output path, and it may raise. The call is recorded.
\<close>

datatype infer_outcome = Infer (writes: "bytes option") (raises: "string option")

definition infer_fast ::
  "infer_outcome \<Rightarrow> path \<Rightarrow> string \<Rightarrow> path \<Rightarrow> world \<Rightarrow> (exn \<times> world) + world" where
  "infer_fast io audio_prompt text output_path w =
     (let w1 = w\<lparr>calls := calls w @ [(audio_prompt, text, output_path)],
                 fs := (case writes io of
                          Some b \<Rightarrow> AList.update output_path (File b) (fs w)
                        | None \<Rightarrow> fs w)\<rparr>
      in case raises io of
           Some msg \<Rightarrow> Inl (ModelError msg, w1)
         | None \<Rightarrow> Inr w1)"

subsection \<open>\<^verbatim>\<open>IndexTtsServer\<close>\<close>

record server =
  service_name :: string
  default_voice :: path

text \<open>\<^verbatim>\<open>if voice_file:\<close> is false for \<^verbatim>\<open>None\<close> and for the empty string.\<close>

definition truthy :: "path option \<Rightarrow> bool" where
  "truthy voice_file = (case voice_file of Some v \<Rightarrow> v \<noteq> [] | None \<Rightarrow> False)"

text \<open>The body of the \<^verbatim>\<open>try\<close> of \<^verbatim>\<open>process_text\<close> (lines 117 to 160).\<close>

definition process_text_try ::
  "infer_outcome \<Rightarrow> world \<Rightarrow> string \<Rightarrow> path \<Rightarrow> path \<Rightarrow> (exn \<times> world) + (string \<times> world)" where
  "process_text_try io w text_data output_file voice_file =
     (case makedirs (fs w) (dirname output_file) of
        Inl (e, t) \<Rightarrow> Inl (e, w\<lparr>fs := t\<rparr>)
      | Inr t \<Rightarrow>
          (case infer_fast io voice_file text_data output_file (w\<lparr>fs := t\<rparr>) of
             Inl (e, w1) \<Rightarrow> Inl (e, w1)
           | Inr w1 \<Rightarrow>
               (let w2 = print LogInferenceCompleted w1
                in if \<not> path_exists (fs w2) output_file
                   then Inr (''Error: IndexTTS failed to generate audio.'',
                             print LogAudioNotCreated w2)
                   else Inr (''Text processed successfully!'',
                             print (LogAudioCreated (getsize (fs w2) output_file)) w2))))"

text \<open>\<^verbatim>\<open>process_text\<close> (lines 105 to 164). It returns the status text; it never raises.\<close>

definition process_text ::
  "server \<Rightarrow> infer_outcome \<Rightarrow> world \<Rightarrow> string \<Rightarrow> path \<Rightarrow> path option \<Rightarrow> string \<times> world" where
  "process_text self io w text_data output_file voice_file =
     (let w1 = print (LogSavingTo output_file) (print (LogReceivedText text_data) w);
          voice = (case voice_file of
                     Some v \<Rightarrow> if v \<noteq> [] then v else default_voice self
                   | None \<Rightarrow> default_voice self);
          w2 = print (if truthy voice_file then LogUsingVoice voice
                      else LogUsingDefaultVoice voice) w1
      in case process_text_try io w2 text_data output_file voice of
           Inl (e, w3) \<Rightarrow>
             (''Error in text processing: '' @ str_exn e, print (LogProcessingException e) w3)
         | Inr r \<Rightarrow> r)"

text \<open>
  \<^verbatim>\<open>warm_up_models\<close> (lines 88 to 103). The temporary file is made before the \<^verbatim>\<open>try\<close>, so
  a failure to make it leaves the method; it is deleted when the \<^verbatim>\<open>with\<close> block ends.
  \<^verbatim>\<open>process_text\<close> does not raise, so the \<^verbatim>\<open>except\<close> branch has nothing to catch.
\<close>

definition dummy_text :: string where
  "dummy_text = [CHR 0xE6, CHR 0xB5, CHR 0x8B, CHR 0xE8, CHR 0xAF, CHR 0x95]"

definition warm_up_models ::
  "server \<Rightarrow> path list \<Rightarrow> infer_outcome \<Rightarrow> world \<Rightarrow> (exn \<times> world) + world" where
  "warm_up_models self names io w =
     (let w1 = print LogWarmingUp w
      in case NamedTemporaryFile (fs w1) names of
           Inl e \<Rightarrow> Inl (e, w1)
         | Inr (temp_file, t) \<Rightarrow>
             (let w2 = w1\<lparr>fs := t\<rparr>;
                  w3 = (if path_exists (fs w2) (default_voice self)
                        then print LogWarmedUp
                               (snd (process_text self io w2 dummy_text temp_file
                                       (Some (default_voice self))))
                        else print LogSkippingWarmup w2)
              in Inr (w3\<lparr>fs := AList.delete temp_file (fs w3)\<rparr>)))"

subsection \<open>The main loop\<close>

text \<open>
  What the surroundings do during one turn of the loop: what \<^verbatim>\<open>recv_multipart\<close> yields,
  the names \<^verbatim>\<open>mkdtemp\<close> is offered, and what the model does if it is called.
\<close>

record turn =
  recv_multipart :: "exn + frames"
  temp_names :: "path list"
  infer :: infer_outcome

text \<open>The inner \<^verbatim>\<open>try\<close> of \<^verbatim>\<open>run\<close> (lines 190 to 194).\<close>

definition cleanup_temp_files :: "path \<Rightarrow> path \<Rightarrow> world \<Rightarrow> world" where
  "cleanup_temp_files temp_audio_path temp_dir w =
     (case os_remove (fs w) temp_audio_path of
        Inl e \<Rightarrow> print (LogCleanupWarning e) w
      | Inr t1 \<Rightarrow>
          (case os_rmdir t1 temp_dir of
             Inl e \<Rightarrow> print (LogCleanupWarning e) (w\<lparr>fs := t1\<rparr>)
           | Inr t2 \<Rightarrow> w\<lparr>fs := t2\<rparr>))"

text \<open>
  Lines 171 to 194: what the outer \<^verbatim>\<open>try\<close> does once \<^verbatim>\<open>message\<close> is bound. \<open>Inl\<close> is an
  exception on its way to the outer \<^verbatim>\<open>except\<close>.
\<close>

definition handle_message :: "server \<Rightarrow> turn \<Rightarrow> frames \<Rightarrow> world \<Rightarrow> (exn \<times> world) + world" where
  "handle_message self env message w =
     (if length message \<le> 3 then Inl (IndexError, w)
      else
        (let payload = message ! 3
         in case mkdtemp (fs w) (temp_names env) of
              Inl e \<Rightarrow> Inl (e, w)
            | Inr (temp_dir, t) \<Rightarrow>
                (let w1 = w\<lparr>fs := t\<rparr>;
                     temp_audio_path = path_join temp_dir ''response.wav''
                 in case decode_utf8 payload of
                      Inl e \<Rightarrow> Inl (e, w1)
                    | Inr text \<Rightarrow>
                        (let (status_msg, w2) =
                               process_text self (infer env) w1 text temp_audio_path None;
                             w3 = print (LogStatus status_msg) w2
                         in case (if path_exists (fs w3) temp_audio_path
                                  then read_file (fs w3) temp_audio_path
                                  else Inr [])
                            of
                              Inl e \<Rightarrow> Inl (e, w3)
                            | Inr audio_data \<Rightarrow>
                                Inr (cleanup_temp_files temp_audio_path temp_dir
                                       (send_multipart (take 3 message @ [audio_data]) w3))))))"

text \<open>
  The outer \<^verbatim>\<open>except\<close> (lines 196 to 199). \<open>message\<close> is the local variable of \<^verbatim>\<open>run\<close>:
  \<open>None\<close> while nothing has been assigned to it; reading it then raises
  \<^verbatim>\<open>UnboundLocalError\<close> inside the handler, which nothing catches.
\<close>

definition except_handler :: "frames option \<Rightarrow> exn \<Rightarrow> world \<Rightarrow> (exn \<times> world) + world" where
  "except_handler message e w =
     (let w1 = print (LogErrorProcessingRequest e) w
      in case message of
           None \<Rightarrow> Inl (UnboundLocalError, w1)
         | Some m \<Rightarrow> Inr (send_multipart (take 3 m @ [[]]) w1))"

text \<open>
  One turn of \<^verbatim>\<open>while True\<close> (lines 168 to 199). The variable \<open>message\<close> keeps its value
  from the turn before when \<^verbatim>\<open>recv_multipart\<close> raises.
\<close>

definition loop_turn ::
  "server \<Rightarrow> turn \<Rightarrow> world \<Rightarrow> frames option \<Rightarrow> (exn \<times> world) + (world \<times> frames option)" where
  "loop_turn self env w message =
     (let w1 = print LogReady w
      in case recv_multipart env of
           Inl e \<Rightarrow>
             (case except_handler message e w1 of
                Inl x \<Rightarrow> Inl x
              | Inr w2 \<Rightarrow> Inr (w2, message))
         | Inr m \<Rightarrow>
             (case handle_message self env m w1 of
                Inl (e, w2) \<Rightarrow>
                  (case except_handler (Some m) e w2 of
                     Inl x \<Rightarrow> Inl x
                   | Inr w3 \<Rightarrow> Inr (w3, Some m))
              | Inr w2 \<Rightarrow> Inr (w2, Some m)))"

text \<open>
  \<^verbatim>\<open>run\<close>: the loop over the turns the surroundings provide. When they are used up the
  loop is blocked in \<^verbatim>\<open>recv_multipart\<close> (\<open>Waiting\<close>); an exception that leaves a turn
  ends \<^verbatim>\<open>run\<close> (\<open>Crashed\<close>).
\<close>

datatype outcome = Waiting world "frames option" | Crashed exn world

fun run :: "server \<Rightarrow> world \<Rightarrow> frames option \<Rightarrow> turn list \<Rightarrow> outcome" where
  "run self w message [] = Waiting w message"
| "run self w message (env # envs) =
     (case loop_turn self env w message of
        Inl (e, w') \<Rightarrow> Crashed e w'
      | Inr (w', message') \<Rightarrow> run self w' message' envs)"

fun final_world :: "outcome \<Rightarrow> world" where
  "final_world (Waiting w _) = w"
| "final_world (Crashed _ w) = w"

subsection \<open>Start-up\<close>

text \<open>
  The settings \<^verbatim>\<open>__init__\<close> reads from the process environment, already resolved, and
  what the surroundings do during start-up: whether loading the model raises, the names
  offered for the warm-up file, and what the model does in the warm-up call.
\<close>

record config =
  model_dir :: path
  voice_setting :: path

record startup =
  load_error :: "exn option"
  warmup_names :: "path list"
  warmup_infer :: infer_outcome

definition required_files :: "string list" where
  "required_files = [''bigvgan_generator.pth'', ''bpe.model'', ''gpt.pth'', ''config.yaml'']"

fun check_required :: "path \<Rightarrow> string list \<Rightarrow> world \<Rightarrow> (exn \<times> world) + world" where
  "check_required dir [] w = Inr w"
| "check_required dir (file # files) w =
     (let file_path = path_join dir file
      in if \<not> path_exists (fs w) file_path
         then Inl (FileNotFoundError (''Missing required model file: '' @ file),
                   print (LogRequiredFileMissing file_path) w)
         else check_required dir files (print (LogRequiredFileFound file_path) w))"

text \<open>\<^verbatim>\<open>__init__\<close> (lines 21 to 86).\<close>

definition init :: "config \<Rightarrow> startup \<Rightarrow> world \<Rightarrow> (exn \<times> world) + (server \<times> world)" where
  "init cfg env w =
     (case check_required (model_dir cfg) required_files (print LogLoadingModel w) of
        Inl x \<Rightarrow> Inl x
      | Inr w1 \<Rightarrow>
          (case load_error env of
             Some e \<Rightarrow> Inl (e, print (LogModelLoadFailed e) w1)
           | None \<Rightarrow>
               (let w2 = print LogModelLoaded w1;
                    self = \<lparr>service_name = ''text-to-wav'', default_voice = voice_setting cfg\<rparr>;
                    w3 = print (if path_exists (fs w2) (default_voice self)
                                then LogDefaultVoiceFound (default_voice self)
                                else LogDefaultVoiceMissing (default_voice self)) w2;
                    w4 = send_multipart [service_name self] w3
                in case warm_up_models self (warmup_names env) (warmup_infer env) w4 of
                     Inl x \<Rightarrow> Inl x
                   | Inr w5 \<Rightarrow> Inr (self, w5))))"

text \<open>\<^verbatim>\<open>main\<close> (lines 201 to 204).\<close>

definition main :: "config \<Rightarrow> startup \<Rightarrow> turn list \<Rightarrow> world \<Rightarrow> outcome" where
  "main cfg env envs w =
     (case init cfg env w of
        Inl (e, w') \<Rightarrow> Crashed e w'
      | Inr (self, w') \<Rightarrow> run self w' None envs)"

subsection \<open>Counting warm-ups, and concrete surroundings\<close>

text \<open>
  How often \<^verbatim>\<open>warm_up_models\<close> has been entered is read off the printed lines. The
  remaining definitions are small concrete worlds, servers and turns on which the
  statements below are evaluated.
\<close>

definition warm_up_count :: "world \<Rightarrow> nat" where
  "warm_up_count w = count_list (printed w) LogWarmingUp"

definition example_world :: world where
  "example_world =
     \<lparr>fs = [(''/tmp'', Dir), (''/voice.wav'', File ''voice'')],
      sent = [], printed = [], calls = []\<rparr>"

definition bare_world :: world where
  "bare_world = \<lparr>fs = [(''/tmp'', Dir)], sent = [], printed = [], calls = []\<rparr>"

definition example_server :: server where
  "example_server = \<lparr>service_name = ''text-to-wav'', default_voice = ''/voice.wav''\<rparr>"

definition request :: "frames \<Rightarrow> infer_outcome \<Rightarrow> turn" where
  "request m io = \<lparr>recv_multipart = Inr m, temp_names = [''/tmp/tmpa''], infer = io\<rparr>"

definition failed_receive :: turn where
  "failed_receive =
     \<lparr>recv_multipart = Inl (ZMQError ''Interrupted system call''),
      temp_names = [''/tmp/tmpb''], infer = Infer None None\<rparr>"

definition example_config :: config where
  "example_config = \<lparr>model_dir = ''/m'', voice_setting = ''/voice.wav''\<rparr>"

definition installed_world :: world where
  "installed_world =
     \<lparr>fs = [(''/tmp'', Dir), (''/m/bigvgan_generator.pth'', File []), (''/m/bpe.model'', File []),
            (''/m/gpt.pth'', File []), (''/m/config.yaml'', File []),
            (''/voice.wav'', File ''voice'')],
      sent = [], printed = [], calls = []\<rparr>"

definition example_startup :: "path list \<Rightarrow> startup" where
  "example_startup names =
     \<lparr>load_error = None, warmup_names = names, warmup_infer = Infer (Some ''RIFF'') None\<rparr>"

definition synth :: "infer_outcome \<Rightarrow> string \<times> world" where
  "synth io = process_text example_server io example_world ''hi'' ''/tmp/out.wav'' None"

section \<open>Facts about the worker\<close>

text \<open>The definitions to unfold when a concrete turn is evaluated.\<close>

lemmas worker_defs =
  loop_turn_def handle_message_def except_handler_def print_def send_multipart_def
  mkdtemp_def NamedTemporaryFile_def path_exists_def path_join_def decode_utf8_def
  continuation_def process_text_def process_text_try_def truthy_def makedirs_def
  ancestors_def dirname_def infer_fast_def read_file_def getsize_def cleanup_temp_files_def
  os_remove_def os_rmdir_def warm_up_models_def init_def main_def required_files_def
  dummy_text_def Let_def

lemmas example_defs =
  example_world_def bare_world_def example_server_def request_def failed_receive_def
  example_config_def installed_world_def example_startup_def

text \<open>What each step leaves untouched, and what a turn sends.\<close>

lemma sent_print [simp]: "sent (print l w) = sent w"
  by (simp add: print_def)

lemma fs_print [simp]: "fs (print l w) = fs w"
  by (simp add: print_def)

lemma calls_print [simp]: "calls (print l w) = calls w"
  by (simp add: print_def)

lemma printed_print [simp]: "printed (print l w) = printed w @ [l]"
  by (simp add: print_def)

lemma sent_send [simp]: "sent (send_multipart m w) = sent w @ [m]"
  by (simp add: send_multipart_def)

lemma fs_send [simp]: "fs (send_multipart m w) = fs w"
  by (simp add: send_multipart_def)

lemma calls_send [simp]: "calls (send_multipart m w) = calls w"
  by (simp add: send_multipart_def)

lemma printed_send [simp]: "printed (send_multipart m w) = printed w"
  by (simp add: send_multipart_def)

lemma process_text_sent: "process_text self io w text out voice = (st, w') \<Longrightarrow> sent w' = sent w"
  by (auto simp: process_text_def process_text_try_def infer_fast_def Let_def
           split: sum.splits option.splits prod.splits if_splits)

lemma cleanup_sent [simp]: "sent (cleanup_temp_files p d w) = sent w"
  by (auto simp: cleanup_temp_files_def split: sum.splits)

lemma cleanup_calls [simp]: "calls (cleanup_temp_files p d w) = calls w"
  by (auto simp: cleanup_temp_files_def split: sum.splits)

lemma process_text_calls:
  "process_text self io w text out voice = (st, w') \<Longrightarrow>
   calls w' = calls w \<or>
   calls w' = calls w @ [(case voice of Some v \<Rightarrow> if v \<noteq> [] then v else default_voice self
                          | None \<Rightarrow> default_voice self, text, out)]"
  by (auto simp: process_text_def process_text_try_def infer_fast_def Let_def
           split: sum.splits option.splits prod.splits if_splits)

lemma turn_sends_one:
  "recv_multipart env = Inr m \<Longrightarrow>
   \<exists>w' p. loop_turn self env w message = Inr (w', Some m) \<and>
          sent w' = sent w @ [take 3 m @ [p]]"
  by (auto simp: loop_turn_def handle_message_def except_handler_def Let_def
       dest: process_text_sent
       split: sum.splits prod.splits if_splits)

lemma decode_utf8_Inr: "decode_utf8 p = Inr text \<Longrightarrow> text = p"
  by (auto simp: decode_utf8_def split: if_splits)

lemma turn_calls:
  "recv_multipart env = Inr m \<Longrightarrow> loop_turn self env w message = Inr (w', mm) \<Longrightarrow>
   calls w' = calls w \<or>
   (3 < length m \<and> (\<exists>out. calls w' = calls w @ [(default_voice self, m ! 3, out)]))"
  by (auto simp: loop_turn_def handle_message_def except_handler_def Let_def
       dest!: process_text_calls decode_utf8_Inr
       split: sum.splits prod.splits if_splits)

lemma handle_message_trailing:
  assumes "3 < length m"
  shows "handle_message self env (m @ extra) w = handle_message self env m w"
proof -
  have a: "take 3 (m @ extra) = take 3 m" and b: "(m @ extra) ! 3 = m ! 3"
    and c: "(length (m @ extra) \<le> 3) = (length m \<le> 3)"
    using assms by (simp_all add: nth_append)
  show ?thesis
    unfolding handle_message_def a b c ..
qed

lemma loop_turn_trailing:
  assumes "recv_multipart env = Inr m" and "3 < length m"
  shows "map_sum id fst (loop_turn self (env\<lparr>recv_multipart := Inr (m @ extra)\<rparr>) w message) =
         map_sum id fst (loop_turn self env w message)"
proof -
  have e1: "temp_names (env\<lparr>recv_multipart := Inr (m @ extra)\<rparr>) = temp_names env"
    and e2: "infer (env\<lparr>recv_multipart := Inr (m @ extra)\<rparr>) = infer env"
    by simp_all
  have "handle_message self (env\<lparr>recv_multipart := Inr (m @ extra)\<rparr>) (m @ extra) (print LogReady w)
           = handle_message self env (m @ extra) (print LogReady w)"
    unfolding handle_message_def e1 e2 ..
  then have h: "handle_message self (env\<lparr>recv_multipart := Inr (m @ extra)\<rparr>) (m @ extra) (print LogReady w)
           = handle_message self env m (print LogReady w)"
    using handle_message_trailing [OF assms(2)] by simp
  show ?thesis
  proof (cases "handle_message self env m (print LogReady w)")
    case (Inl x)
    then show ?thesis using h assms
      by (cases x) (simp add: loop_turn_def except_handler_def Let_def)
  next
    case (Inr w2)
    then show ?thesis using h assms(1)
      by (simp add: loop_turn_def Let_def)
  qed
qed

lemma process_text_mk_fail:
  assumes "makedirs (fs w) (dirname out) = Inl (e, t)"
    and "process_text self io w text out voice = (st, w')"
  shows "st = ''Error in text processing: '' @ str_exn e \<and> calls w' = calls w"
  using assms by (auto simp: process_text_def process_text_try_def Let_def)

lemma process_text_raised:
  assumes "makedirs (fs w) (dirname out) = Inr t" and "raises io = Some msg"
    and "process_text self io w text out voice = (st, w')"
  shows "st = ''Error in text processing: '' @ msg \<and>
         calls w' = calls w @
           [(case voice of Some v \<Rightarrow> if v \<noteq> [] then v else default_voice self
             | None \<Rightarrow> default_voice self, text, out)]"
  using assms by (auto simp: process_text_def process_text_try_def infer_fast_def Let_def)

lemma process_text_completed:
  assumes "makedirs (fs w) (dirname out) = Inr t" and "raises io = None"
    and "process_text self io w text out voice = (st, w')"
  shows "st = (if path_exists (fs w') out then ''Text processed successfully!''
               else ''Error: IndexTTS failed to generate audio.'') \<and>
         calls w' = calls w @
           [(case voice of Some v \<Rightarrow> if v \<noteq> [] then v else default_voice self
             | None \<Rightarrow> default_voice self, text, out)]"
  using assms
  by (auto simp: process_text_def process_text_try_def infer_fast_def Let_def split: if_splits)

lemma payload_is_used:
  assumes r: "recv_multipart env = Inr m" and l: "3 < length m"
    and k: "mkdtemp (fs w) (temp_names env) = Inr (d, t)"
    and u: "decode_utf8 (m ! 3) = Inr text"
    and md: "makedirs t (dirname (path_join d ''response.wav'')) = Inr t'"
    and lt: "loop_turn self env w message = Inr (w', mm)"
  shows "calls w' = calls w @ [(default_voice self, m ! 3, path_join d ''response.wav'')]"
proof -
  let ?out = "path_join d ''response.wav''"
  let ?w1 = "(print LogReady w)\<lparr>fs := t\<rparr>"
  obtain st w2 where p: "process_text self (infer env) ?w1 text ?out None = (st, w2)"
    by (cases "process_text self (infer env) ?w1 text ?out None")
  from md have md': "makedirs (fs ?w1) (dirname ?out) = Inr t'" by simp
  from u have tx: "text = m ! 3" by (rule decode_utf8_Inr)
  have c: "calls w2 = calls w @ [(default_voice self, m ! 3, ?out)]"
  proof (cases "raises (infer env)")
    case None
    from process_text_completed [OF md' None p] tx show ?thesis by simp
  next
    case (Some msg)
    from process_text_raised [OF md' Some p] tx show ?thesis by simp
  qed
  from r l k u p lt c show ?thesis
    by (auto simp: loop_turn_def handle_message_def except_handler_def Let_def
         split: sum.splits prod.splits if_splits)
qed

lemma not_index_error:
  assumes "3 < length m"
  shows "handle_message self env m w \<noteq> Inl (IndexError, w2)"
  using assms
  by (auto simp: handle_message_def mkdtemp_def decode_utf8_def read_file_def Let_def
       split: sum.splits prod.splits if_splits list.splits option.splits node.splits)


lemma wc_print [simp]:
  "warm_up_count (print l w) = warm_up_count w + (if l = LogWarmingUp then 1 else 0)"
  by (simp add: warm_up_count_def print_def)

lemma wc_send [simp]: "warm_up_count (send_multipart m w) = warm_up_count w"
  by (simp add: warm_up_count_def send_multipart_def)

lemma wc_fs [simp]: "warm_up_count (w\<lparr>fs := t\<rparr>) = warm_up_count w"
  by (simp add: warm_up_count_def)

lemma wc_cleanup [simp]: "warm_up_count (cleanup_temp_files p d w) = warm_up_count w"
  by (auto simp: cleanup_temp_files_def split: sum.splits)






section \<open>The claims\<close>

subsection \<open>C1: one reply for each request received\<close>

text \<open>
  Claim C1 says that the main loop sends exactly one reply for each request received, never
  more than one. Within the turn that receives the request this is so (one envelope is
  sent, whatever \<^verbatim>\<open>mkdtemp\<close>, the decoder and the model do), but the handler of
  \<^verbatim>\<open>run\<close> reads \<^verbatim>\<open>message\<close> also when the next \<^verbatim>\<open>recv_multipart\<close> raises. Evaluated
  on one request (whose synthesis produces nothing) followed by a receive that raises: the
  loop has sent two envelopes with the routing frames of that one request; without the
  failed receive it has sent one.
\<close>

theorem request_replied_twice:
  "sent (final_world
           (run example_server example_world None
              [request [''client'', '''', ''text-to-wav'', ''hello''] (Infer None None),
               failed_receive])) =
     [[''client'', '''', ''text-to-wav'', ''''], [''client'', '''', ''text-to-wav'', '''']] \<and>
   length (filter (\<lambda>r. take 3 r = [''client'', '''', ''text-to-wav''])
            (sent (final_world
               (run example_server example_world None
                  [request [''client'', '''', ''text-to-wav'', ''hello''] (Infer None None),
                   failed_receive])))) = 2 \<and>
   sent (final_world
           (run example_server example_world None
              [request [''client'', '''', ''text-to-wav'', ''hello''] (Infer None None)])) =
     [[''client'', '''', ''text-to-wav'', '''']]"
  by (simp add: worker_defs example_defs)

subsection \<open>C2: a receive that fails\<close>

text \<open>
  Claim C2 says that a failed receive sends nothing and that no exception ends the loop.
  The handler of \<^verbatim>\<open>run\<close> reads \<^verbatim>\<open>message\<close> on every path. Evaluated on a receive that
  raises: in the first turn the variable is unbound, the handler raises
  \<^verbatim>\<open>UnboundLocalError\<close> and \<^verbatim>\<open>run\<close> ends; after a served request the handler sends a
  second, empty reply with the routing frames of that earlier request.
\<close>

theorem failed_receive_crashes_or_replies_again:
  "run example_server example_world None [failed_receive] =
     Crashed UnboundLocalError
       (example_world\<lparr>printed :=
          [LogReady, LogErrorProcessingRequest (ZMQError ''Interrupted system call'')]\<rparr>) \<and>
   sent (final_world
           (run example_server example_world None
              [request [''client'', '''', ''text-to-wav'', ''hi''] (Infer (Some ''RIFF'') None),
               failed_receive])) =
     [[''client'', '''', ''text-to-wav'', ''RIFF''], [''client'', '''', ''text-to-wav'', '''']]"
  by (simp add: worker_defs example_defs)

subsection \<open>C3: the shape of the reply\<close>

text \<open>
  Claim C3 as stated (the last of \<open>N\<close> frames is the payload, the reply has \<open>N\<close> frames)
  fails on the code: of an envelope of five frames the text synthesised is the fourth frame
  and the reply has four frames; of an envelope of two frames the reply has three.
\<close>

theorem reply_shape_counterexample:
  "sent (final_world
           (run example_server example_world None
              [request [''client'', '''', ''text-to-wav'', ''hi'', ''x''] (Infer (Some ''RIFF'') None)])) =
     [[''client'', '''', ''text-to-wav'', ''RIFF'']] \<and>
   length [''client'', '''', ''text-to-wav'', ''RIFF''] \<noteq>
     length (butlast [''client'', '''', ''text-to-wav'', ''hi'', ''x'']) + 1 \<and>
   calls (final_world
           (run example_server example_world None
              [request [''client'', '''', ''text-to-wav'', ''hi'', ''x''] (Infer (Some ''RIFF'') None)])) =
     [(''/voice.wav'', ''hi'', ''/tmp/tmpa/response.wav'')] \<and>
   last [''client'', '''', ''text-to-wav'', ''hi'', ''x''] \<noteq> ''hi'' \<and>
   sent (final_world
           (run example_server example_world None
              [request [''client'', ''hi''] (Infer (Some ''RIFF'') None)])) =
     [[''client'', ''hi'', '''']] \<and>
   length [''client'', ''hi'', ''''] \<noteq> length (butlast [''client'', ''hi'']) + 1"
  by (simp add: worker_defs example_defs)

text \<open>
  Claim C3, amended: for every envelope of exactly four frames the last frame is the payload
  (when the workspace can be made and the last frame decodes, the model is called once, on
  the text of the last frame, writing to \<^verbatim>\<open>response.wav\<close> in the new directory; in any
  case no call is made on another text), and the one reply is the three preceding frames,
  unchanged and in order, followed by one payload frame.
\<close>

theorem four_frame_reply:
  assumes "recv_multipart env = Inr m" and "length m = 4"
  shows "\<exists>w' p. loop_turn self env w message = Inr (w', Some m) \<and>
          sent w' = sent w @ [butlast m @ [p]] \<and>
          length (butlast m @ [p]) = length (butlast m) + 1 \<and>
          (calls w' = calls w \<or>
           (\<exists>out. calls w' = calls w @ [(default_voice self, last m, out)])) \<and>
          (\<forall>d t text t'.
             mkdtemp (fs w) (temp_names env) = Inr (d, t) \<and>
             decode_utf8 (last m) = Inr text \<and>
             makedirs t (dirname (path_join d ''response.wav'')) = Inr t' \<longrightarrow>
             calls w' = calls w @ [(default_voice self, last m, path_join d ''response.wav'')])"
proof -
  from turn_sends_one [OF assms(1)] obtain w' p where
    t: "loop_turn self env w message = Inr (w', Some m)" and
    s: "sent w' = sent w @ [take 3 m @ [p]]"
    by blast
  from assms(2) have b: "take 3 m = butlast m"
    by (simp add: butlast_conv_take)
  from assms(2) have l: "last m = m ! 3"
    by (cases m rule: rev_cases) (auto simp: nth_append)
  from assms(2) have g: "3 < length m" by simp
  from turn_calls [OF assms(1) t] l
  have c: "calls w' = calls w \<or> (\<exists>out. calls w' = calls w @ [(default_voice self, last m, out)])"
    by auto
  have u: "calls w' = calls w @ [(default_voice self, last m, path_join d ''response.wav'')]"
    if a: "mkdtemp (fs w) (temp_names env) = Inr (d, t)"
      and e: "decode_utf8 (last m) = Inr x"
      and f: "makedirs t (dirname (path_join d ''response.wav'')) = Inr u"
    for d t x u
  proof -
    from e l have "decode_utf8 (m ! 3) = Inr x" by simp
    from payload_is_used [OF assms(1) g a this f t] l show ?thesis by simp
  qed
  then have v: "\<forall>d t text t'.
             mkdtemp (fs w) (temp_names env) = Inr (d, t) \<and>
             decode_utf8 (last m) = Inr text \<and>
             makedirs t (dirname (path_join d ''response.wav'')) = Inr t' \<longrightarrow>
             calls w' = calls w @ [(default_voice self, last m, path_join d ''response.wav'')]"
    by blast
  have n: "length (butlast m @ [p]) = length (butlast m) + 1" by simp
  from s b have s': "sent w' = sent w @ [butlast m @ [p]]" by simp
  from t s' n c v show ?thesis by blast
qed

theorem four_frame_reply_witness:
  "recv_multipart (request [''client'', '''', ''text-to-wav'', ''hi''] (Infer (Some ''RIFF'') None)) =
     Inr [''client'', '''', ''text-to-wav'', ''hi''] \<and>
   length [''client'', '''', ''text-to-wav'', ''hi''] = 4 \<and>
   mkdtemp (fs example_world)
     (temp_names (request [''client'', '''', ''text-to-wav'', ''hi''] (Infer (Some ''RIFF'') None))) =
     Inr (''/tmp/tmpa'', fs example_world @ [(''/tmp/tmpa'', Dir)]) \<and>
   decode_utf8 (last [''client'', '''', ''text-to-wav'', ''hi'']) = Inr ''hi'' \<and>
   makedirs (fs example_world @ [(''/tmp/tmpa'', Dir)])
     (dirname (path_join ''/tmp/tmpa'' ''response.wav'')) =
     Inr (fs example_world @ [(''/tmp/tmpa'', Dir)]) \<and>
   (\<exists>w' p. loop_turn example_server
              (request [''client'', '''', ''text-to-wav'', ''hi''] (Infer (Some ''RIFF'') None))
              example_world None =
            Inr (w', Some [''client'', '''', ''text-to-wav'', ''hi'']) \<and>
          sent w' = sent example_world @ [[''client'', '''', ''text-to-wav''] @ [p]] \<and>
          calls w' = calls example_world @
            [(default_voice example_server, last [''client'', '''', ''text-to-wav'', ''hi''],
              path_join ''/tmp/tmpa'' ''response.wav'')])"
proof -
  have h: "recv_multipart (request [''client'', '''', ''text-to-wav'', ''hi''] (Infer (Some ''RIFF'') None)) =
     Inr [''client'', '''', ''text-to-wav'', ''hi'']"
    by (simp add: request_def)
  have l: "length [''client'', '''', ''text-to-wav'', ''hi''] = 4"
    by simp
  have k: "mkdtemp (fs example_world)
     (temp_names (request [''client'', '''', ''text-to-wav'', ''hi''] (Infer (Some ''RIFF'') None))) =
     Inr (''/tmp/tmpa'', fs example_world @ [(''/tmp/tmpa'', Dir)])"
    by (simp add: worker_defs example_defs)
  have u: "decode_utf8 (last [''client'', '''', ''text-to-wav'', ''hi'']) = Inr ''hi''"
    by (simp add: worker_defs)
  have d: "makedirs (fs example_world @ [(''/tmp/tmpa'', Dir)])
     (dirname (path_join ''/tmp/tmpa'' ''response.wav'')) =
     Inr (fs example_world @ [(''/tmp/tmpa'', Dir)])"
    by (simp add: worker_defs example_defs)
  have b: "butlast [''client'', '''', ''text-to-wav'', ''hi''] = [''client'', '''', ''text-to-wav'']"
    by simp
  from four_frame_reply [OF h l, of example_server example_world None] k u d
  have "\<exists>w' p. loop_turn example_server
              (request [''client'', '''', ''text-to-wav'', ''hi''] (Infer (Some ''RIFF'') None))
              example_world None =
            Inr (w', Some [''client'', '''', ''text-to-wav'', ''hi'']) \<and>
          sent w' = sent example_world @ [[''client'', '''', ''text-to-wav''] @ [p]] \<and>
          calls w' = calls example_world @
            [(default_voice example_server, last [''client'', '''', ''text-to-wav'', ''hi''],
              path_join ''/tmp/tmpa'' ''response.wav'')]"
    unfolding b by blast
  with h l k u d show ?thesis by blast
qed

subsection \<open>C4: release of the workspace on every path\<close>

text \<open>
  Claim C4 says that the temporary directory and the artifact are gone before the next
  receive on every path. The clean-up of \<^verbatim>\<open>run\<close> stands at the end of the \<^verbatim>\<open>try\<close> body
  only. Evaluated on a payload that does not decode, and on a model call that raises: after
  the turn the directory made by \<^verbatim>\<open>mkdtemp\<close> is still there.
\<close>

theorem workspace_left_behind:
  "map_of (fs (final_world
             (run example_server example_world None
                [request [''client'', '''', ''text-to-wav'', [CHR 0xFF]]
                   (Infer (Some ''RIFF'') None)])))
     ''/tmp/tmpa'' = Some Dir \<and>
   map_of (fs (final_world
             (run example_server example_world None
                [request [''client'', '''', ''text-to-wav'', ''hi'']
                   (Infer None (Some ''CUDA out of memory''))])))
     ''/tmp/tmpa'' = Some Dir \<and>
   map_of (fs example_world) ''/tmp/tmpa'' = None"
  by (simp add: worker_defs example_defs)

subsection \<open>C5: the three outcomes of the synthesis call\<close>

text \<open>
  Claim C5. \<^verbatim>\<open>process_text\<close> returns one of three texts. It returns the success text
  exactly when the model was called, the call did not raise and the output path exists
  afterwards; when the call completed and the path does not exist it returns the
  no-audio failure; when the call raised it returns the failure text that ends with the
  message of the exception. The existence of the output is tested after the call.
\<close>

theorem process_text_outcomes:
  assumes "process_text self io w text out voice = (st, w')"
  shows "(st = ''Text processed successfully!'' \<longleftrightarrow>
            calls w' \<noteq> calls w \<and> raises io = None \<and> path_exists (fs w') out) \<and>
         (calls w' \<noteq> calls w \<and> raises io = None \<and> \<not> path_exists (fs w') out \<longrightarrow>
            st = ''Error: IndexTTS failed to generate audio.'') \<and>
         (calls w' \<noteq> calls w \<and> raises io = Some msg \<longrightarrow>
            st = ''Error in text processing: '' @ msg) \<and>
         (st = ''Text processed successfully!'' \<or>
          st = ''Error: IndexTTS failed to generate audio.'' \<or>
          (\<exists>e. st = ''Error in text processing: '' @ str_exn e))"
proof (cases "makedirs (fs w) (dirname out)")
  case (Inl x)
  obtain e t where "x = (e, t)" by (cases x)
  with Inl process_text_mk_fail [OF _ assms]
  have "st = ''Error in text processing: '' @ str_exn e" and "calls w' = calls w"
    by auto
  then show ?thesis by auto
next
  case (Inr t)
  show ?thesis
  proof (cases "raises io")
    case None
    from process_text_completed [OF Inr None assms] None show ?thesis
      by (auto split: if_splits)
  next
    case (Some m)
    from process_text_raised [OF Inr Some assms]
    have a: "st = ''Error in text processing: '' @ m" and c: "calls w' \<noteq> calls w"
      by auto
    have "m = str_exn (ModelError m)" by simp
    then have b: "\<exists>e. m = str_exn e" by (rule exI)
    from a b c Some show ?thesis by auto
  qed
qed

theorem process_text_outcomes_witness:
  "fst (synth (Infer (Some ''RIFF'') None)) = ''Text processed successfully!'' \<and>
   calls (snd (synth (Infer None None))) \<noteq> calls example_world \<and>
   raises (Infer None None) = None \<and>
   \<not> path_exists (fs (snd (synth (Infer None None)))) ''/tmp/out.wav'' \<and>
   fst (synth (Infer None None)) = ''Error: IndexTTS failed to generate audio.'' \<and>
   calls (snd (synth (Infer None (Some ''CUDA out of memory'')))) \<noteq> calls example_world \<and>
   raises (Infer None (Some ''CUDA out of memory'')) = Some ''CUDA out of memory'' \<and>
   fst (synth (Infer None (Some ''CUDA out of memory''))) =
     ''Error in text processing: '' @ ''CUDA out of memory''"
proof -
  have h: "process_text example_server io example_world ''hi'' ''/tmp/out.wav'' None =
             (fst (synth io), snd (synth io))" for io
    by (simp add: synth_def)
  have a1: "calls (snd (synth (Infer (Some ''RIFF'') None))) \<noteq> calls example_world \<and>
            raises (Infer (Some ''RIFF'') None) = None \<and>
            path_exists (fs (snd (synth (Infer (Some ''RIFF'') None)))) ''/tmp/out.wav''"
    by (simp add: synth_def worker_defs example_defs)
  have a2: "calls (snd (synth (Infer None None))) \<noteq> calls example_world \<and>
            raises (Infer None None) = None \<and>
            \<not> path_exists (fs (snd (synth (Infer None None)))) ''/tmp/out.wav''"
    by (simp add: synth_def worker_defs example_defs)
  have a3: "calls (snd (synth (Infer None (Some ''CUDA out of memory'')))) \<noteq> calls example_world \<and>
            raises (Infer None (Some ''CUDA out of memory'')) = Some ''CUDA out of memory''"
    by (simp add: synth_def worker_defs example_defs)
  from process_text_outcomes [OF h [of "Infer (Some ''RIFF'') None"]] a1
  have c1: "fst (synth (Infer (Some ''RIFF'') None)) = ''Text processed successfully!''"
    by blast
  from process_text_outcomes [OF h [of "Infer None None"]] a2
  have c2: "fst (synth (Infer None None)) = ''Error: IndexTTS failed to generate audio.''"
    by blast
  from process_text_outcomes [where msg = "''CUDA out of memory''",
         OF h [of "Infer None (Some ''CUDA out of memory'')"]] a3
  have c3: "fst (synth (Infer None (Some ''CUDA out of memory''))) =
              ''Error in text processing: '' @ ''CUDA out of memory''"
    by blast
  from a2 a3 c1 c2 c3 show ?thesis by blast
qed

subsection \<open>C6: the payload of the reply\<close>

text \<open>
  Claim C6. The payload frame of the one reply of a turn is the content of the artifact
  file when that file exists after the synthesis call, and the empty byte sequence when it
  does not (also when the turn never reached the synthesis call: too few frames,
  \<^verbatim>\<open>mkdtemp\<close> raised, or the payload did not decode). The artifact is looked up in the
  file system \<^verbatim>\<open>process_text\<close> leaves behind.
\<close>

theorem reply_payload_is_artifact:
  assumes "recv_multipart env = Inr m"
  shows "\<exists>w'. loop_turn self env w message = Inr (w', Some m) \<and>
     sent w' = sent w @
       [take 3 m @
        [if length m \<le> 3 then []
         else case mkdtemp (fs w) (temp_names env) of
                Inl _ \<Rightarrow> []
              | Inr (d, t) \<Rightarrow>
                  (case decode_utf8 (m ! 3) of
                     Inl _ \<Rightarrow> []
                   | Inr text \<Rightarrow>
                       (case map_of
                               (fs (snd (process_text self (infer env)
                                           ((print LogReady w)\<lparr>fs := t\<rparr>) text
                                           (path_join d ''response.wav'') None)))
                               (path_join d ''response.wav'') of
                          Some (File b) \<Rightarrow> b
                        | _ \<Rightarrow> []))]]"
  using assms
  by (auto simp: loop_turn_def handle_message_def except_handler_def Let_def read_file_def
         path_exists_def
       dest: process_text_sent
       split: sum.splits prod.splits option.splits node.splits)

theorem reply_payload_is_artifact_witness:
  "recv_multipart (request [''client'', '''', ''text-to-wav'', ''hi''] (Infer (Some ''RIFF'') None)) =
     Inr [''client'', '''', ''text-to-wav'', ''hi''] \<and>
   (\<exists>w'. loop_turn example_server
            (request [''client'', '''', ''text-to-wav'', ''hi''] (Infer (Some ''RIFF'') None))
            example_world None =
          Inr (w', Some [''client'', '''', ''text-to-wav'', ''hi'']) \<and>
        sent w' = [[''client'', '''', ''text-to-wav'', ''RIFF'']])"
proof -
  have h: "recv_multipart (request [''client'', '''', ''text-to-wav'', ''hi''] (Infer (Some ''RIFF'') None)) =
     Inr [''client'', '''', ''text-to-wav'', ''hi'']"
    by (simp add: request_def)
  have p: "(if length [''client'', '''', ''text-to-wav'', ''hi''] \<le> 3 then []
         else case mkdtemp (fs example_world)
                     (temp_names (request [''client'', '''', ''text-to-wav'', ''hi'']
                        (Infer (Some ''RIFF'') None))) of
                Inl _ \<Rightarrow> []
              | Inr (d, t) \<Rightarrow>
                  (case decode_utf8 ([''client'', '''', ''text-to-wav'', ''hi''] ! 3) of
                     Inl _ \<Rightarrow> []
                   | Inr text \<Rightarrow>
                       (case map_of
                               (fs (snd (process_text example_server
                                           (infer (request [''client'', '''', ''text-to-wav'', ''hi'']
                                              (Infer (Some ''RIFF'') None)))
                                           ((print LogReady example_world)\<lparr>fs := t\<rparr>) text
                                           (path_join d ''response.wav'') None)))
                               (path_join d ''response.wav'') of
                          Some (File b) \<Rightarrow> b
                        | _ \<Rightarrow> []))) = ''RIFF''"
    by (simp add: worker_defs example_defs)
  from reply_payload_is_artifact [OF h, of example_server example_world None]
  have "\<exists>w'. loop_turn example_server
            (request [''client'', '''', ''text-to-wav'', ''hi''] (Infer (Some ''RIFF'') None))
            example_world None =
          Inr (w', Some [''client'', '''', ''text-to-wav'', ''hi'']) \<and>
        sent w' = [[''client'', '''', ''text-to-wav'', ''RIFF'']]"
    unfolding p by (simp add: example_world_def)
  with h show ?thesis by (rule conjI)
qed

subsection \<open>C7: the voice reference\<close>

text \<open>
  Claim C7 as stated fails on the code in its second half: \<^verbatim>\<open>process_text\<close> does not look
  whether the reference exists. In a world without the default reference, a call without an
  explicit reference invokes the model with the missing default.
\<close>

theorem missing_voice_counterexample:
  "\<not> path_exists (fs bare_world) (default_voice example_server) \<and>
   calls (snd (process_text example_server (Infer None (Some ''No such file: /voice.wav''))
                 bare_world ''hi'' ''/tmp/out.wav'' None)) =
     [(''/voice.wav'', ''hi'', ''/tmp/out.wav'')]"
  by (simp add: worker_defs example_defs)

text \<open>
  Claim C7, amended: when the caller supplies no voice reference (\<^verbatim>\<open>None\<close> or the empty
  string) the synthesis call uses the configured default reference, and an explicit
  reference is used as given; no existence check is made: whenever the output directory can
  be made the model is invoked with that reference, and a failure carries the message of
  the exception the model call raises.
\<close>

theorem voice_fallback:
  assumes "makedirs (fs w) (dirname out) = Inr t"
    and "process_text self io w text out voice = (st, w')"
  shows "(voice = None \<or> voice = Some [] \<longrightarrow>
            calls w' = calls w @ [(default_voice self, text, out)]) \<and>
         (voice = Some v \<and> v \<noteq> [] \<longrightarrow> calls w' = calls w @ [(v, text, out)]) \<and>
         (raises io = Some msg \<longrightarrow> st = ''Error in text processing: '' @ msg)"
proof (cases "raises io")
  case None
  from process_text_completed [OF assms(1) None assms(2)] None show ?thesis
    by auto
next
  case (Some m)
  from process_text_raised [OF assms(1) Some assms(2)] Some show ?thesis
    by auto
qed

theorem voice_fallback_witness:
  "makedirs (fs bare_world) (dirname ''/tmp/out.wav'') = Inr (fs bare_world) \<and>
   calls (snd (process_text example_server (Infer None (Some ''No such file: /voice.wav''))
                 bare_world ''hi'' ''/tmp/out.wav'' None)) =
     calls bare_world @ [(default_voice example_server, ''hi'', ''/tmp/out.wav'')] \<and>
   fst (process_text example_server (Infer None (Some ''No such file: /voice.wav''))
          bare_world ''hi'' ''/tmp/out.wav'' None) =
     ''Error in text processing: '' @ ''No such file: /voice.wav'' \<and>
   calls (snd (process_text example_server (Infer (Some ''RIFF'') None)
                 bare_world ''hi'' ''/tmp/out.wav'' (Some ''/other.wav''))) =
     calls bare_world @ [(''/other.wav'', ''hi'', ''/tmp/out.wav'')]"
proof -
  have m: "makedirs (fs bare_world) (dirname ''/tmp/out.wav'') = Inr (fs bare_world)"
    by (simp add: worker_defs example_defs)
  have h: "process_text example_server io bare_world ''hi'' ''/tmp/out.wav'' v =
             (fst (process_text example_server io bare_world ''hi'' ''/tmp/out.wav'' v),
              snd (process_text example_server io bare_world ''hi'' ''/tmp/out.wav'' v))"
    for io v
    by simp
  have r: "raises (Infer None (Some ''No such file: /voice.wav'')) =
             Some ''No such file: /voice.wav''"
    by simp
  from voice_fallback [where voice = None and io = "Infer None (Some ''No such file: /voice.wav'')"
         and msg = "''No such file: /voice.wav''", OF m h] r
  have a: "calls (snd (process_text example_server (Infer None (Some ''No such file: /voice.wav''))
                 bare_world ''hi'' ''/tmp/out.wav'' None)) =
     calls bare_world @ [(default_voice example_server, ''hi'', ''/tmp/out.wav'')]"
    and b: "fst (process_text example_server (Infer None (Some ''No such file: /voice.wav''))
          bare_world ''hi'' ''/tmp/out.wav'' None) =
     ''Error in text processing: '' @ ''No such file: /voice.wav''"
    by blast+
  from voice_fallback [where voice = "Some ''/other.wav''" and v = "''/other.wav''"
         and io = "Infer (Some ''RIFF'') None", OF m h]
  have c: "calls (snd (process_text example_server (Infer (Some ''RIFF'') None)
                 bare_world ''hi'' ''/tmp/out.wav'' (Some ''/other.wav''))) =
     calls bare_world @ [(''/other.wav'', ''hi'', ''/tmp/out.wav'')]"
    by simp
  from m a b c show ?thesis by blast
qed

subsection \<open>C8: the warm-up\<close>




subsection \<open>C9: the clean-up step\<close>

text \<open>
  Claim C9 says that the clean-up removes the directory also when the artifact was never
  made. Evaluated on a workspace whose directory exists and whose artifact does not:
  \<^verbatim>\<open>os.remove\<close> raises, the warning is printed, \<^verbatim>\<open>os.rmdir\<close> is not reached and the
  directory stays. (The step itself returns normally: the exception does not leave it.)
\<close>

theorem cleanup_keeps_directory:
  "cleanup_temp_files ''/tmp/tmpa/response.wav'' ''/tmp/tmpa''
     (bare_world\<lparr>fs := [(''/tmp'', Dir), (''/tmp/tmpa'', Dir)]\<rparr>) =
   bare_world
     \<lparr>fs := [(''/tmp'', Dir), (''/tmp/tmpa'', Dir)],
      printed :=
        [LogCleanupWarning
           (FileNotFoundError
              ''[Errno 2] No such file or directory: /tmp/tmpa/response.wav'')]\<rparr>"
  by (simp add: worker_defs example_defs)

subsection \<open>C10: the fixed frame positions\<close>

text \<open>
  Claim C10. The payload is the frame at index 3: when the envelope has that frame, the
  workspace can be made and the frame decodes, the model is called once on its text; in any
  case no call is made on another text. The reply echoes the frames at indices 0 to 2. An
  envelope of fewer than four frames takes the error path: \<^verbatim>\<open>IndexError\<close> is printed
  and the reply is the frames there are, up to three, followed by the empty payload; an
  envelope of four or more frames never raises \<^verbatim>\<open>IndexError\<close>. Frames after the fourth are
  ignored: appending frames to an envelope of four or more frames changes nothing in what
  the turn does to the world (what is sent, the files, the printed lines, the model calls).
\<close>

theorem fixed_index_framing:
  assumes "recv_multipart env = Inr m"
  shows "(\<exists>w' p. loop_turn self env w message = Inr (w', Some m) \<and>
            sent w' = sent w @ [take 3 m @ [p]] \<and>
            (calls w' = calls w \<or>
             (3 < length m \<and>
              (\<exists>out. calls w' = calls w @ [(default_voice self, m ! 3, out)]))) \<and>
            (\<forall>d t x u.
               3 < length m \<and>
               mkdtemp (fs w) (temp_names env) = Inr (d, t) \<and>
               decode_utf8 (m ! 3) = Inr x \<and>
               makedirs t (dirname (path_join d ''response.wav'')) = Inr u \<longrightarrow>
               calls w' = calls w @
                 [(default_voice self, m ! 3, path_join d ''response.wav'')])) \<and>
         (length m < 4 \<longrightarrow>
            loop_turn self env w message =
              Inr (send_multipart (take 3 m @ [[]])
                     (print (LogErrorProcessingRequest IndexError) (print LogReady w)),
                   Some m)) \<and>
         (4 \<le> length m \<longrightarrow>
            (\<forall>w2. handle_message self env m (print LogReady w) \<noteq> Inl (IndexError, w2))) \<and>
         (4 \<le> length m \<longrightarrow>
            map_sum id fst (loop_turn self (env\<lparr>recv_multipart := Inr (m @ extra)\<rparr>) w message) =
            map_sum id fst (loop_turn self env w message))"
proof (intro conjI impI allI)
  from turn_sends_one [OF assms] obtain w' p where
    t: "loop_turn self env w message = Inr (w', Some m)" and
    s: "sent w' = sent w @ [take 3 m @ [p]]"
    by blast
  from turn_calls [OF assms t]
  have c: "calls w' = calls w \<or>
             (3 < length m \<and>
              (\<exists>out. calls w' = calls w @ [(default_voice self, m ! 3, out)]))" .
  have v: "\<forall>d t x u.
               3 < length m \<and>
               mkdtemp (fs w) (temp_names env) = Inr (d, t) \<and>
               decode_utf8 (m ! 3) = Inr x \<and>
               makedirs t (dirname (path_join d ''response.wav'')) = Inr u \<longrightarrow>
               calls w' = calls w @
                 [(default_voice self, m ! 3, path_join d ''response.wav'')]"
    using payload_is_used [OF assms _ _ _ _ t] by blast
  from t s c v
  show "\<exists>w' p. loop_turn self env w message = Inr (w', Some m) \<and>
            sent w' = sent w @ [take 3 m @ [p]] \<and>
            (calls w' = calls w \<or>
             (3 < length m \<and>
              (\<exists>out. calls w' = calls w @ [(default_voice self, m ! 3, out)]))) \<and>
            (\<forall>d t x u.
               3 < length m \<and>
               mkdtemp (fs w) (temp_names env) = Inr (d, t) \<and>
               decode_utf8 (m ! 3) = Inr x \<and>
               makedirs t (dirname (path_join d ''response.wav'')) = Inr u \<longrightarrow>
               calls w' = calls w @
                 [(default_voice self, m ! 3, path_join d ''response.wav'')])"
    by blast
next
  assume "length m < 4"
  with assms show "loop_turn self env w message =
              Inr (send_multipart (take 3 m @ [[]])
                     (print (LogErrorProcessingRequest IndexError) (print LogReady w)),
                   Some m)"
    by (simp add: loop_turn_def handle_message_def except_handler_def)
next
  fix w2
  assume "4 \<le> length m"
  then have "3 < length m" by simp
  then show "handle_message self env m (print LogReady w) \<noteq> Inl (IndexError, w2)"
    by (rule not_index_error)
next
  assume "4 \<le> length m"
  then have "3 < length m" by simp
  from loop_turn_trailing [OF assms this]
  show "map_sum id fst (loop_turn self (env\<lparr>recv_multipart := Inr (m @ extra)\<rparr>) w message) =
            map_sum id fst (loop_turn self env w message)" .
qed

theorem fixed_index_framing_witness:
  "recv_multipart (request [''client'', ''hi''] (Infer (Some ''RIFF'') None)) =
     Inr [''client'', ''hi''] \<and>
   length [''client'', ''hi''] < 4 \<and>
   loop_turn example_server (request [''client'', ''hi''] (Infer (Some ''RIFF'') None))
     example_world None =
     Inr (send_multipart (take 3 [''client'', ''hi''] @ [[]])
            (print (LogErrorProcessingRequest IndexError) (print LogReady example_world)),
          Some [''client'', ''hi'']) \<and>
   recv_multipart (request [''client'', '''', ''text-to-wav'', ''hi''] (Infer (Some ''RIFF'') None)) =
     Inr [''client'', '''', ''text-to-wav'', ''hi''] \<and>
   4 \<le> length [''client'', '''', ''text-to-wav'', ''hi''] \<and>
   3 < length [''client'', '''', ''text-to-wav'', ''hi''] \<and>
   mkdtemp (fs example_world)
     (temp_names (request [''client'', '''', ''text-to-wav'', ''hi''] (Infer (Some ''RIFF'') None))) =
     Inr (''/tmp/tmpa'', fs example_world @ [(''/tmp/tmpa'', Dir)]) \<and>
   decode_utf8 ([''client'', '''', ''text-to-wav'', ''hi''] ! 3) = Inr ''hi'' \<and>
   makedirs (fs example_world @ [(''/tmp/tmpa'', Dir)])
     (dirname (path_join ''/tmp/tmpa'' ''response.wav'')) =
     Inr (fs example_world @ [(''/tmp/tmpa'', Dir)]) \<and>
   (\<exists>w'. loop_turn example_server
            (request [''client'', '''', ''text-to-wav'', ''hi''] (Infer (Some ''RIFF'') None))
            example_world None =
          Inr (w', Some [''client'', '''', ''text-to-wav'', ''hi'']) \<and>
        calls w' = calls example_world @
          [(default_voice example_server, [''client'', '''', ''text-to-wav'', ''hi''] ! 3,
            path_join ''/tmp/tmpa'' ''response.wav'')]) \<and>
   handle_message example_server
     (request [''client'', '''', ''text-to-wav'', ''hi''] (Infer (Some ''RIFF'') None))
     [''client'', '''', ''text-to-wav'', ''hi''] (print LogReady example_world) \<noteq>
     Inl (IndexError, print LogReady example_world) \<and>
   map_sum id fst
     (loop_turn example_server
        ((request [''client'', '''', ''text-to-wav'', ''hi''] (Infer (Some ''RIFF'') None))
           \<lparr>recv_multipart := Inr ([''client'', '''', ''text-to-wav'', ''hi''] @ [''x''])\<rparr>)
        example_world None) =
   map_sum id fst
     (loop_turn example_server
        (request [''client'', '''', ''text-to-wav'', ''hi''] (Infer (Some ''RIFF'') None))
        example_world None)"
proof -
  have h2: "recv_multipart (request [''client'', ''hi''] (Infer (Some ''RIFF'') None)) =
     Inr [''client'', ''hi'']"
    by (simp add: request_def)
  have l2: "length [''client'', ''hi''] < 4"
    by simp
  have h4: "recv_multipart (request [''client'', '''', ''text-to-wav'', ''hi'']
              (Infer (Some ''RIFF'') None)) =
     Inr [''client'', '''', ''text-to-wav'', ''hi'']"
    by (simp add: request_def)
  have l4: "4 \<le> length [''client'', '''', ''text-to-wav'', ''hi'']"
    by simp
  have g4: "3 < length [''client'', '''', ''text-to-wav'', ''hi'']"
    by simp
  have k: "mkdtemp (fs example_world)
     (temp_names (request [''client'', '''', ''text-to-wav'', ''hi''] (Infer (Some ''RIFF'') None))) =
     Inr (''/tmp/tmpa'', fs example_world @ [(''/tmp/tmpa'', Dir)])"
    by (simp add: worker_defs example_defs)
  have u: "decode_utf8 ([''client'', '''', ''text-to-wav'', ''hi''] ! 3) = Inr ''hi''"
    by (simp add: worker_defs)
  have d: "makedirs (fs example_world @ [(''/tmp/tmpa'', Dir)])
     (dirname (path_join ''/tmp/tmpa'' ''response.wav'')) =
     Inr (fs example_world @ [(''/tmp/tmpa'', Dir)])"
    by (simp add: worker_defs example_defs)
  from fixed_index_framing [OF h2, of example_server example_world None] l2
  have a: "loop_turn example_server (request [''client'', ''hi''] (Infer (Some ''RIFF'') None))
     example_world None =
     Inr (send_multipart (take 3 [''client'', ''hi''] @ [[]])
            (print (LogErrorProcessingRequest IndexError) (print LogReady example_world)),
          Some [''client'', ''hi''])"
    by blast
  note f = fixed_index_framing [OF h4, of example_server example_world None "[''x'']"]
  from f l4
  have b: "map_sum id fst
     (loop_turn example_server
        ((request [''client'', '''', ''text-to-wav'', ''hi''] (Infer (Some ''RIFF'') None))
           \<lparr>recv_multipart := Inr ([''client'', '''', ''text-to-wav'', ''hi''] @ [''x''])\<rparr>)
        example_world None) =
   map_sum id fst
     (loop_turn example_server
        (request [''client'', '''', ''text-to-wav'', ''hi''] (Infer (Some ''RIFF'') None))
        example_world None)"
    by blast
  from f l4
  have n: "handle_message example_server
     (request [''client'', '''', ''text-to-wav'', ''hi''] (Infer (Some ''RIFF'') None))
     [''client'', '''', ''text-to-wav'', ''hi''] (print LogReady example_world) \<noteq>
     Inl (IndexError, print LogReady example_world)"
    by blast
  from f g4 k u d
  have c: "\<exists>w'. loop_turn example_server
            (request [''client'', '''', ''text-to-wav'', ''hi''] (Infer (Some ''RIFF'') None))
            example_world None =
          Inr (w', Some [''client'', '''', ''text-to-wav'', ''hi'']) \<and>
        calls w' = calls example_world @
          [(default_voice example_server, [''client'', '''', ''text-to-wav'', ''hi''] ! 3,
            path_join ''/tmp/tmpa'' ''response.wav'')]"
    by blast
  from h2 l2 a h4 l4 g4 k u d c n b show ?thesis by blast
qed

end
